theory Spec2Isabelle
  imports Main "HOL-Library.Sublist"
begin

section \<open>Requests to the NCBI SRA database and eutils: \<open>geo_to_hca/utils/sra_utils.py\<close>\<close>

text \<open>
  The module issues HTTP GET requests and parses the bodies as JSON, XML or CSV. The
  libraries it calls (\<open>requests\<close>, \<open>xml.etree.ElementTree\<close>, \<open>pandas\<close>) are the
  environment: each library call is a parameter of the function that makes it, and it
  answers with a value or with the exception it raises. Every function returns its
  outcome (\<open>Inl\<close> the exception raised, \<open>Inr\<close> the value returned) together with the
  list of effects it performed, in the order it performed them.
\<close>

subsection \<open>Data\<close>

text \<open>
  A decoded JSON value, as \<open>Response.json()\<close> gives it: \<open>null\<close> is Python's \<open>None\<close>,
  an object is a \<open>dict\<close> (its items in insertion order, which is the order \<open>values()\<close>
  follows), an array is a \<open>list\<close>. A number that is not an integer is kept by its
  literal: nothing in the module looks at a number's value.
\<close>

datatype json =
    JNull
  | JBool bool
  | JInt int
  | JFloat string
  | JStr string
  | JArr "json list"
  | JObj "(string \<times> json) list"

text \<open>A GET request: the URL and the \<open>params\<close> dict (empty when the call gives none).\<close>

datatype request = Request (req_url: string) (req_params: "(string \<times> json) list")

text \<open>What the module reads of a \<open>requests.Response\<close>.\<close>

record response =
  status_code :: int
  content :: string

text \<open>
  The second argument of \<open>handle_errors.NotFoundSRA\<close>: the callers pass a list of
  accessions (\<open>srr_accessions\<close>, \<open>accessions\<close>) or one string
  (\<open>bioproject_accession\<close>, \<open>project_pubmed_id\<close>).
\<close>

datatype py_arg = PyStr string | PyList "string list"

text \<open>
  The exceptions. \<open>AssertionError\<close> carries its message. \<open>FailedToGetSRP a e\<close> is the
  \<open>Exception(f'Failed to get SRP accessions for {geo_accession}: {e}')\<close> of line 53, with
  the accession \<open>a\<close> and the caught exception \<open>e\<close> that the message interpolates.
  \<open>UnboundLocalError\<close> carries the name of the variable. \<open>RequestException\<close>,
  \<open>JSONDecodeError\<close>, \<open>ParseError\<close>, \<open>URLError\<close> and \<open>ParserError\<close> are what the
  libraries raise; \<open>HTTPError\<close> is what \<open>raise_for_status\<close> raises; \<open>KeyError\<close>,
  \<open>TypeError\<close> and \<open>AttributeError\<close> are what Python's own operations raise.
\<close>

text \<open>
  Modelled from the spec: the class \<open>handle_errors.NotFoundSRA\<close>, which is declared in
  \<open>geo_to_hca/utils/handle_errors.py\<close> and not in this module. The specification calls it
  the typed failure that carries the provider's HTTP response and the offending
  accession(s); the constructor \<open>NotFoundSRA\<close> takes exactly the two arguments that the
  calls at lines 80, 99, 111 and 123 pass, in their order.
\<close>

datatype py_exception =
    AssertionError string
  | FailedToGetSRP string py_exception
  | NotFoundSRA response py_arg
  | UnboundLocalError string
  | RequestException string
  | HTTPError response
  | JSONDecodeError
  | KeyError string
  | TypeError
  | AttributeError
  | ParseError
  | URLError
  | ParserError

text \<open>
  The effects: \<open>sleep\<close> (its duration in milliseconds, so \<open>sleep(0.5)\<close> is
  \<open>Sleep 500\<close>), a GET through \<open>requests\<close>, and \<open>pandas.read_csv\<close> on a URL, which
  fetches the URL itself.
\<close>

datatype event = Sleep nat | HttpGet request | ReadCsv string

definition STATUS_ERROR_CODE :: int where
  "STATUS_ERROR_CODE = 400"

subsection \<open>Python's operations\<close>

text \<open>\<open>sep.join(xs)\<close> for a list of strings.\<close>

fun join :: "string \<Rightarrow> string list \<Rightarrow> string" where
  "join sep [] = []"
| "join sep [x] = x"
| "join sep (x # y # ys) = x @ sep @ join sep (y # ys)"

text \<open>
  Sequencing of calls that may raise: the first exception ends the computation.
\<close>

definition and_then :: "'e + 'a \<Rightarrow> ('a \<Rightarrow> 'e + 'b) \<Rightarrow> 'e + 'b" where
  "and_then m f = (case m of Inl e \<Rightarrow> Inl e | Inr v \<Rightarrow> f v)"

text \<open>
  \<open>x[key]\<close> with a string key: a \<open>dict\<close> answers with the value or \<open>KeyError\<close>; a
  list, a string, a number, a boolean and \<open>None\<close> raise \<open>TypeError\<close>.
\<close>

fun subscript :: "json \<Rightarrow> string \<Rightarrow> py_exception + json" where
  "subscript (JObj kvs) key =
     (case map_of kvs key of None \<Rightarrow> Inl (KeyError key) | Some v \<Rightarrow> Inr v)"
| "subscript _ key = Inl TypeError"

text \<open>
  \<open>x.values()\<close> and \<open>x.get(key, default)\<close>: only a \<open>dict\<close> has these attributes.
  \<open>x.get(key)\<close> is \<open>dict_get x key JNull\<close>.
\<close>

fun py_values :: "json \<Rightarrow> py_exception + json list" where
  "py_values (JObj kvs) = Inr (map snd kvs)"
| "py_values _ = Inl AttributeError"

fun dict_get :: "json \<Rightarrow> string \<Rightarrow> json \<Rightarrow> py_exception + json" where
  "dict_get (JObj kvs) key dflt =
     Inr (case map_of kvs key of None \<Rightarrow> dflt | Some v \<Rightarrow> v)"
| "dict_get _ key dflt = Inl AttributeError"

text \<open>\<open>type(x) is dict\<close>.\<close>

fun is_dict :: "json \<Rightarrow> bool" where
  "is_dict (JObj kvs) = True"
| "is_dict _ = False"

text \<open>
  What a \<open>for\<close> over a value runs through: the elements of a list, the characters of a
  string (each a string of length one), the keys of a \<open>dict\<close>; anything else is not
  iterable.
\<close>

fun py_iter :: "json \<Rightarrow> py_exception + json list" where
  "py_iter (JArr xs) = Inr xs"
| "py_iter (JStr s) = Inr (map (\<lambda>c. JStr [c]) s)"
| "py_iter (JObj kvs) = Inr (map (\<lambda>kv. JStr (fst kv)) kvs)"
| "py_iter _ = Inl TypeError"

text \<open>
  \<open>s in x\<close> for a string \<open>s\<close>: a substring test on a string, membership in a list,
  key membership in a \<open>dict\<close>; \<open>TypeError\<close> on anything else.
\<close>

fun py_in :: "string \<Rightarrow> json \<Rightarrow> py_exception + bool" where
  "py_in s (JStr t) = Inr (sublist s t)"
| "py_in s (JArr xs) = Inr (JStr s \<in> set xs)"
| "py_in s (JObj kvs) = Inr (s \<in> set (map fst kvs))"
| "py_in s _ = Inl TypeError"

text \<open>
  \<open>Response.raise_for_status()\<close> of \<open>requests\<close>: \<open>HTTPError\<close> for a status from 400
  to 599, nothing otherwise.
\<close>

definition raise_for_status :: "response \<Rightarrow> py_exception + unit" where
  "raise_for_status r =
     (if 400 \<le> status_code r \<and> status_code r < 600 then Inl (HTTPError r) else Inr ())"

subsection \<open>The regular expression of the GEO check\<close>

text \<open>
  The part of Python's \<open>re\<close> that \<open>'^GSE.*$'\<close> uses, with no flags: \<open>^\<close> matches at
  the start of the string, a literal matches itself, \<open>.*\<close> matches any run of
  characters other than the newline, and \<open>$\<close> matches at the end of the string and just
  before a newline that is the last character. \<open>re_match_here p at_start s\<close> says that
  \<open>p\<close> matches a prefix of the rest \<open>s\<close> of the subject; \<open>at_start\<close> holds while nothing
  has been consumed. \<open>Pattern.match\<close> tries the start of the string only.
\<close>

datatype re_item = Bol | Eol | Lit char | DotStar

fun re_match_here :: "re_item list \<Rightarrow> bool \<Rightarrow> string \<Rightarrow> bool" where
  "re_match_here [] at_start s = True"
| "re_match_here (Bol # p) at_start s = (at_start \<and> re_match_here p at_start s)"
| "re_match_here (Eol # p) at_start s =
     ((s = [] \<or> s = [CHR 0x0A]) \<and> re_match_here p at_start s)"
| "re_match_here (Lit c # p) at_start [] = False"
| "re_match_here (Lit c # p) at_start (d # s) = (d = c \<and> re_match_here p False s)"
| "re_match_here (DotStar # p) at_start [] = re_match_here p at_start []"
| "re_match_here (DotStar # p) at_start (d # s) =
     ((d \<noteq> CHR 0x0A \<and> re_match_here (DotStar # p) False s)
      \<or> re_match_here p at_start (d # s))"

definition re_match :: "re_item list \<Rightarrow> string \<Rightarrow> bool" where
  "re_match p s = re_match_here p True s"

text \<open>\<open>regex = re.compile('^GSE.*$')\<close> (line 29).\<close>

definition regex :: "re_item list" where
  "regex = [Bol, Lit CHR ''G'', Lit CHR ''S'', Lit CHR ''E'', DotStar, Eol]"

text \<open>
  The pattern \<open>^GSE\<close>, as the specification words the check. It is not in the source;
  it is here to be compared with \<open>regex\<close>.
\<close>

definition spec_pattern :: "re_item list" where
  "spec_pattern = [Bol, Lit CHR ''G'', Lit CHR ''S'', Lit CHR ''E'']"

subsection \<open>The efetch requests\<close>

text \<open>
  \<open>request_fastq_from_SRA\<close> (lines 71-85). The bare \<open>except\<close> turns every exception
  of \<open>xm.fromstring\<close> into the value \<open>None\<close>.
\<close>

definition request_fastq_from_SRA ::
  "(request \<Rightarrow> py_exception + response) \<Rightarrow> (string \<Rightarrow> py_exception + 'x) \<Rightarrow>
   string list \<Rightarrow> (py_exception + 'x option) \<times> event list" where
  "request_fastq_from_SRA rq_get fromstring srr_accessions =
     (let url = ''https://eutils.ncbi.nlm.nih.gov/entrez/eutils/efetch/fcgi?db=sra&id=''
                @ join '','' srr_accessions;
          log = [Sleep 500, HttpGet (Request url [])]
      in case rq_get (Request url []) of
           Inl e \<Rightarrow> (Inl e, log)
         | Inr srr_metadata_url \<Rightarrow>
             if status_code srr_metadata_url = STATUS_ERROR_CODE
             then (Inl (NotFoundSRA srr_metadata_url (PyList srr_accessions)), log)
             else (case fromstring (content srr_metadata_url) of
                     Inl e \<Rightarrow> (Inr None, log)
                   | Inr xml_content \<Rightarrow> (Inr (Some xml_content), log)))"

text \<open>
  \<open>request_accession_info\<close> (lines 88-100). The local \<open>url\<close> is bound by the two
  \<open>if\<close> statements only; reading it unbound at line 97 raises \<open>UnboundLocalError\<close>
  before \<open>rq.get\<close> is called. There is no \<open>sleep\<close> in this function.
\<close>

definition request_accession_info ::
  "(request \<Rightarrow> py_exception + response) \<Rightarrow> (string \<Rightarrow> py_exception + 'x) \<Rightarrow>
   string list \<Rightarrow> string \<Rightarrow> (py_exception + 'x) \<times> event list" where
  "request_accession_info rq_get fromstring accessions accession_type =
     (let url0 = None;
          url1 = (if accession_type = ''biosample''
                  then Some (''https://eutils.ncbi.nlm.nih.gov/entrez/eutils/efetch/fcgi?db=biosample&id=''
                             @ join '','' accessions)
                  else url0);
          url2 = (if accession_type = ''experiment''
                  then Some (''https://eutils.ncbi.nlm.nih.gov/entrez/eutils/efetch/fcgi?db=sra&id=''
                             @ join '','' accessions)
                  else url1)
      in case url2 of
           None \<Rightarrow> (Inl (UnboundLocalError ''url''), [])
         | Some url \<Rightarrow>
             (let log = [HttpGet (Request url [])]
              in case rq_get (Request url []) of
                   Inl e \<Rightarrow> (Inl e, log)
                 | Inr sra_url \<Rightarrow>
                     if status_code sra_url = STATUS_ERROR_CODE
                     then (Inl (NotFoundSRA sra_url (PyList accessions)), log)
                     else (fromstring (content sra_url), log)))"

text \<open>\<open>request_bioproject_metadata\<close> (lines 103-112).\<close>

definition request_bioproject_metadata ::
  "(request \<Rightarrow> py_exception + response) \<Rightarrow> (string \<Rightarrow> py_exception + 'x) \<Rightarrow>
   string \<Rightarrow> (py_exception + 'x) \<times> event list" where
  "request_bioproject_metadata rq_get fromstring bioproject_accession =
     (let url = ''https://eutils.ncbi.nlm.nih.gov/entrez/eutils/efetch/fcgi?db=bioproject&id=''
                @ bioproject_accession;
          log = [Sleep 500, HttpGet (Request url [])]
      in case rq_get (Request url []) of
           Inl e \<Rightarrow> (Inl e, log)
         | Inr srp_bioproject_url \<Rightarrow>
             if status_code srp_bioproject_url = STATUS_ERROR_CODE
             then (Inl (NotFoundSRA srp_bioproject_url (PyStr bioproject_accession)), log)
             else (fromstring (content srp_bioproject_url), log))"

text \<open>\<open>request_pubmed_metadata\<close> (lines 115-124).\<close>

definition request_pubmed_metadata ::
  "(request \<Rightarrow> py_exception + response) \<Rightarrow> (string \<Rightarrow> py_exception + 'x) \<Rightarrow>
   string \<Rightarrow> (py_exception + 'x) \<times> event list" where
  "request_pubmed_metadata rq_get fromstring project_pubmed_id =
     (let url = ''https://eutils.ncbi.nlm.nih.gov/entrez/eutils/efetch/fcgi?db=pubmed&id=''
                @ project_pubmed_id @ ''&rettype=xml'';
          log = [Sleep 500, HttpGet (Request url [])]
      in case rq_get (Request url []) of
           Inl e \<Rightarrow> (Inl e, log)
         | Inr pubmed_url \<Rightarrow>
             if status_code pubmed_url = STATUS_ERROR_CODE
             then (Inl (NotFoundSRA pubmed_url (PyStr project_pubmed_id)), log)
             else (fromstring (content pubmed_url), log))"

subsection \<open>From a GEO accession to SRA study accessions\<close>

definition default_params :: "(string \<times> json) list" where
  "default_params = [(''db'', JStr ''gds''), (''retmode'', JStr ''json'')]"

text \<open>
  The two requests of \<open>get_srp_accession_from_geo\<close> (lines 39-40 and 44-45); the
  \<open>params\<close> are \<open>default_params\<close> with one more key.
\<close>

definition esearch_request :: "string \<Rightarrow> request" where
  "esearch_request geo_accession =
     Request ''https://eutils.ncbi.nlm.nih.gov/entrez/eutils/esearch.fcgi''
       (default_params @ [(''term'', JStr geo_accession)])"

definition esummary_request :: "json \<Rightarrow> request" where
  "esummary_request summary_id =
     Request ''https://eutils.ncbi.nlm.nih.gov/entrez/eutils/esummary.fcgi''
       (default_params @ [(''id'', summary_id)])"

text \<open>
  Line 49, second half: \<open>[x for x in xs for x in x]\<close> runs through every item of
  \<open>xs\<close> in turn and raises at the first one that is not iterable.
\<close>

fun flatten :: "json list \<Rightarrow> py_exception + json list" where
  "flatten [] = Inr []"
| "flatten (x # xs) =
     (case py_iter x of
        Inl e \<Rightarrow> Inl e
      | Inr items \<Rightarrow>
          (case flatten xs of Inl e \<Rightarrow> Inl e | Inr rest \<Rightarrow> Inr (items @ rest)))"

text \<open>
  Line 50: \<open>[x['targetobject'] for x in extrelations
             if 'SRP' in x.get('targetobject', '')]\<close>.
\<close>

fun targetobjects :: "json list \<Rightarrow> py_exception + json list" where
  "targetobjects [] = Inr []"
| "targetobjects (x # xs) =
     (case dict_get x ''targetobject'' (JStr []) of
        Inl e \<Rightarrow> Inl e
      | Inr v \<Rightarrow>
          (case py_in ''SRP'' v of
             Inl e \<Rightarrow> Inl e
           | Inr b \<Rightarrow>
               if b
               then (case subscript x ''targetobject'' of
                       Inl e \<Rightarrow> Inl e
                     | Inr t \<Rightarrow>
                         (case targetobjects xs of
                            Inl e \<Rightarrow> Inl e
                          | Inr ts \<Rightarrow> Inr (t # ts)))
               else targetobjects xs))"

text \<open>
  Lines 48-50 on the decoded summary \<open>r.json()\<close>. The values that line 48 keeps are
  dicts, so \<open>x.get('extrelations')\<close> on them cannot raise and \<open>the_get\<close> reads it.
\<close>

definition the_get :: "json \<Rightarrow> string \<Rightarrow> json" where
  "the_get x key = (case dict_get x key JNull of Inl e \<Rightarrow> JNull | Inr v \<Rightarrow> v)"

definition srp_targets :: "json \<Rightarrow> py_exception + json list" where
  "srp_targets j =
     and_then (subscript j ''result'') (\<lambda>res.
     and_then (py_values res) (\<lambda>vs.
       let results = filter is_dict vs
       in and_then (flatten (map (\<lambda>x. the_get x ''extrelations'') results))
            targetobjects))"

text \<open>One pass of the loop body (lines 44-50): what it returns or raises.\<close>

definition summary_body ::
  "(request \<Rightarrow> py_exception + response) \<Rightarrow> (response \<Rightarrow> py_exception + json) \<Rightarrow>
   json \<Rightarrow> py_exception + json list" where
  "summary_body requests_get r_json summary_id =
     and_then (requests_get (esummary_request summary_id)) (\<lambda>r.
     and_then (raise_for_status r) (\<lambda>_.
     and_then (r_json r) srp_targets))"

text \<open>
  The \<open>for\<close> loop (lines 43-50). Its body ends in \<open>return\<close>, so a pass never reaches
  the next item; with nothing to run through, the function falls off its end and the
  call gives \<open>None\<close>.
\<close>

fun summary_loop ::
  "(request \<Rightarrow> py_exception + response) \<Rightarrow> (response \<Rightarrow> py_exception + json) \<Rightarrow>
   json list \<Rightarrow> (py_exception + json list option) \<times> event list" where
  "summary_loop requests_get r_json [] = (Inr None, [])"
| "summary_loop requests_get r_json (summary_id # rest) =
     (case summary_body requests_get r_json summary_id of
        Inl e \<Rightarrow> (Inl e, [HttpGet (esummary_request summary_id)])
      | Inr targets \<Rightarrow> (Inr (Some targets), [HttpGet (esummary_request summary_id)]))"

text \<open>The \<open>try\<close> block (lines 34-50).\<close>

definition try_block ::
  "(request \<Rightarrow> py_exception + response) \<Rightarrow> (response \<Rightarrow> py_exception + json) \<Rightarrow>
   string \<Rightarrow> (py_exception + json list option) \<times> event list" where
  "try_block requests_get r_json geo_accession =
     (case and_then (requests_get (esearch_request geo_accession)) (\<lambda>r.
           and_then (raise_for_status r) (\<lambda>_.
           and_then (r_json r) (\<lambda>j.
           and_then (subscript j ''esearchresult'') (\<lambda>esearchresult.
           and_then (subscript esearchresult ''idlist'') py_iter)))) of
        Inl e \<Rightarrow> (Inl e, [HttpGet (esearch_request geo_accession)])
      | Inr idlist \<Rightarrow>
          (case summary_loop requests_get r_json idlist of
             (outcome, log) \<Rightarrow> (outcome, HttpGet (esearch_request geo_accession) # log)))"

text \<open>
  \<open>get_srp_accession_from_geo\<close> (lines 25-53). The check precedes the \<open>try\<close>; every
  exception of the block is caught and raised again inside \<open>FailedToGetSRP\<close>.
\<close>

definition get_srp_accession_from_geo ::
  "(request \<Rightarrow> py_exception + response) \<Rightarrow> (response \<Rightarrow> py_exception + json) \<Rightarrow>
   string \<Rightarrow> (py_exception + json list option) \<times> event list" where
  "get_srp_accession_from_geo requests_get r_json geo_accession =
     (if \<not> re_match regex geo_accession
      then (Inl (AssertionError (geo_accession @ '' is not a valid GEO accession'')), [])
      else (case try_block requests_get r_json geo_accession of
              (Inl e, log) \<Rightarrow> (Inl (FailedToGetSRP geo_accession e), log)
            | (Inr accessions, log) \<Rightarrow> (Inr accessions, log)))"

subsection \<open>The run table\<close>

text \<open>
  \<open>get_srp_metadata\<close> (lines 56-63). \<open>pd.read_csv\<close> fetches the URL and parses
  the body; whatever it raises leaves the function as it is.
\<close>

definition get_srp_metadata ::
  "(string \<Rightarrow> py_exception + 'df) \<Rightarrow> string \<Rightarrow> (py_exception + 'df) \<times> event list" where
  "get_srp_metadata read_csv srp_accession =
     (let srp_metadata_url =
            ''http://trace.ncbi.nlm.nih.gov/Traces/sra/sra.cgi?save=efetch&db=sra&rettype=runinfo&term=''
            @ srp_accession
      in (read_csv srp_metadata_url, [Sleep 500, ReadCsv srp_metadata_url]))"

subsection \<open>Experiment packages\<close>

text \<open>
  An \<open>Element\<close> is a mutable object and a tree holds references to its children, so the
  elements live in a store and a function that could write to an element returns the
  store. \<open>children\<close> is in document order.
\<close>

type_synonym addr = nat

record element =
  tag :: string
  attrib :: "(string \<times> string) list"
  children :: "addr list"

type_synonym store = "addr \<Rightarrow> element"

text \<open>
  \<open>Element.findall(path)\<close> for a path that is one tag name, as \<open>ElementPath\<close> runs it:
  \<open>for e in elem: if e.tag == tag: yield e\<close>, collected in a list.
\<close>

fun select_tag :: "store \<Rightarrow> string \<Rightarrow> addr list \<Rightarrow> addr list" where
  "select_tag s t [] = []"
| "select_tag s t (e # es) =
     (if tag (s e) = t then e # select_tag s t es else select_tag s t es)"

definition findall :: "store \<Rightarrow> addr \<Rightarrow> string \<Rightarrow> addr list" where
  "findall s elem path = select_tag s path (children (s elem))"

text \<open>The elements a generator \<open>for x in xs: yield x\<close> yields.\<close>

fun yield_each :: "addr list \<Rightarrow> addr list" where
  "yield_each [] = []"
| "yield_each (x # xs) = x # yield_each xs"

text \<open>
  \<open>parse_xml_SRA_runs\<close> (lines 66-68): the sequence it yields, and the store after it.
  \<open>xml_content\<close> is an element or \<open>None\<close> (which \<open>request_fastq_from_SRA\<close> may
  return); \<open>None\<close> has no \<open>findall\<close>.
\<close>

definition parse_xml_SRA_runs ::
  "store \<Rightarrow> addr option \<Rightarrow> (py_exception + addr list) \<times> store" where
  "parse_xml_SRA_runs s xml_content =
     (case xml_content of
        None \<Rightarrow> (Inl AttributeError, s)
      | Some root \<Rightarrow> (Inr (yield_each (findall s root ''EXPERIMENT_PACKAGE'')), s))"

subsection \<open>Pacing\<close>

text \<open>
  \<open>paced_from b log\<close>: every network call of \<open>log\<close> comes right after a \<open>sleep(0.5)\<close>,
  where \<open>b\<close> says whether the event before \<open>log\<close> was one.
\<close>

fun paced_from :: "bool \<Rightarrow> event list \<Rightarrow> bool" where
  "paced_from b [] = True"
| "paced_from b (Sleep d # es) = paced_from (d = 500) es"
| "paced_from b (HttpGet r # es) = (b \<and> paced_from False es)"
| "paced_from b (ReadCsv u # es) = (b \<and> paced_from False es)"

definition paced :: "event list \<Rightarrow> bool" where
  "paced log = paced_from False log"

subsection \<open>The specification's reading of a summary\<close>

text \<open>
  The specification says of a summary response that the lookup "collects all
  cross-reference relations whose target mentions an SRA study prefix, and returns their
  target identifiers". \<open>collect_srp_spec\<close> follows these words on typed data: each record
  of the summary is the list of its relations' targets. It is not in the source; it is
  here to be compared with \<open>srp_targets\<close>. \<open>encode_summary\<close> is the payload the
  provider sends for such records: under \<open>result\<close>, the list \<open>uids\<close> and one dict per
  record, whose \<open>extrelations\<close> is the list of its relations.
\<close>

definition collect_srp_spec :: "string list list \<Rightarrow> string list" where
  "collect_srp_spec records = filter (sublist ''SRP'') (concat records)"

definition encode_relation :: "string \<Rightarrow> json" where
  "encode_relation t = JObj [(''relationtype'', JStr ''SRA''), (''targetobject'', JStr t)]"

definition encode_record :: "string \<times> string list \<Rightarrow> string \<times> json" where
  "encode_record rec =
     (fst rec, JObj [(''uid'', JStr (fst rec)),
                     (''extrelations'', JArr (map encode_relation (snd rec)))])"

definition encode_summary :: "(string \<times> string list) list \<Rightarrow> json" where
  "encode_summary recs =
     JObj [(''header'', JObj [(''type'', JStr ''esummary'')]),
           (''result'', JObj ((''uids'', JArr (map (\<lambda>rec. JStr (fst rec)) recs))
                              # map encode_record recs))]"

subsection \<open>Stub providers\<close>

text \<open>Fixed answers of the environment, for evaluating the functions on concrete inputs.\<close>

definition respond :: "int \<Rightarrow> string \<Rightarrow> request \<Rightarrow> py_exception + response" where
  "respond status body req = Inr \<lparr>status_code = status, content = body\<rparr>"

text \<open>
  A parser that fails on the empty body, as \<open>xm.fromstring\<close> does, and otherwise
  answers with the body itself in place of a tree.
\<close>

definition parse_nonempty :: "string \<Rightarrow> py_exception + string" where
  "parse_nonempty body = (if body = [] then Inl ParseError else Inr body)"

text \<open>
  A provider for the GEO lookup: it answers the search and the summary endpoint with
  status 200, and \<open>decode_geo\<close> decodes its two bodies. The search finds two ids; the
  summary of the first has one relation to \<open>SRP000001\<close> and one to a BioProject.
\<close>

definition geo_provider :: "request \<Rightarrow> py_exception + response" where
  "geo_provider req =
     (if req_url req = ''https://eutils.ncbi.nlm.nih.gov/entrez/eutils/esearch.fcgi''
      then Inr \<lparr>status_code = 200, content = ''search''\<rparr>
      else if req = esummary_request (JStr ''200012345'')
      then Inr \<lparr>status_code = 200, content = ''summary''\<rparr>
      else Inl (RequestException ''no route''))"

definition summary_payload :: json where
  "summary_payload =
     JObj [(''header'', JObj [(''type'', JStr ''esummary'')]),
           (''result'',
            JObj [(''uids'', JArr [JStr ''200012345'']),
                  (''200012345'',
                   JObj [(''uid'', JStr ''200012345''),
                         (''accession'', JStr ''GSE12345''),
                         (''extrelations'',
                          JArr [JObj [(''relationtype'', JStr ''SRA''),
                                      (''targetobject'', JStr ''SRP000001'')],
                                JObj [(''relationtype'', JStr ''BioProject''),
                                      (''targetobject'', JStr ''PRJNA000001'')]])])])]"

definition search_payload :: json where
  "search_payload =
     JObj [(''header'', JObj [(''type'', JStr ''esearch'')]),
           (''esearchresult'',
            JObj [(''count'', JStr ''2''),
                  (''idlist'', JArr [JStr ''200012345'', JStr ''200067890''])])]"

definition decode_geo :: "response \<Rightarrow> py_exception + json" where
  "decode_geo r =
     (if content r = ''search'' then Inr search_payload
      else if content r = ''summary'' then Inr summary_payload
      else Inl JSONDecodeError)"

text \<open>The same provider when the search finds nothing.\<close>

definition empty_search_payload :: json where
  "empty_search_payload =
     JObj [(''header'', JObj [(''type'', JStr ''esearch'')]),
           (''esearchresult'', JObj [(''count'', JStr ''0''), (''idlist'', JArr [])])]"

definition decode_geo_empty :: "response \<Rightarrow> py_exception + json" where
  "decode_geo_empty r =
     (if content r = ''search'' then Inr empty_search_payload else Inl JSONDecodeError)"

text \<open>
  The same provider when the summary it sends is the payload of the typed records
  \<open>recs\<close>.
\<close>

definition decode_geo_records ::
  "(string \<times> string list) list \<Rightarrow> response \<Rightarrow> py_exception + json" where
  "decode_geo_records recs r =
     (if content r = ''search'' then Inr search_payload
      else if content r = ''summary'' then Inr (encode_summary recs)
      else Inl JSONDecodeError)"

text \<open>\<open>pd.read_csv\<close> when the host cannot be reached, and when the body is not a table.\<close>

definition read_csv_unreachable :: "string \<Rightarrow> py_exception + string list list" where
  "read_csv_unreachable u = Inl URLError"

definition read_csv_unparseable :: "string \<Rightarrow> py_exception + string list list" where
  "read_csv_unparseable u = Inl ParserError"

text \<open>
  A store with one tree: element 0 is the root, with children 1, 2, 3, 4 in document
  order; 1, 2 and 4 are experiment packages, 3 is not, and 5, a child of 1, is one.
\<close>

definition example_store :: store where
  "example_store a =
     (if a = 0 then \<lparr>tag = ''EXPERIMENT_PACKAGE_SET'', attrib = [], children = [1, 2, 3, 4]\<rparr>
      else if a = 1 then \<lparr>tag = ''EXPERIMENT_PACKAGE'', attrib = [], children = [5]\<rparr>
      else if a = 3 then \<lparr>tag = ''Summary'', attrib = [], children = []\<rparr>
      else \<lparr>tag = ''EXPERIMENT_PACKAGE'', attrib = [], children = []\<rparr>)"

section \<open>Properties\<close>

subsection \<open>The GEO check\<close>

lemma dotstar_eol:
  "re_match_here [DotStar, Eol] b s \<longleftrightarrow> CHR 0x0A \<notin> set (butlast s)"
  by (induction s arbitrary: b) auto

lemma lit_cons:
  "re_match_here (Lit c # p) b s \<longleftrightarrow> (\<exists>t. s = c # t \<and> re_match_here p False t)"
  by (cases s) auto

text \<open>
  What \<open>'^GSE.*$'\<close> accepts: \<open>GSE\<close> followed by a rest with no newline but, possibly,
  its last character.
\<close>

lemma re_match_regex:
  "re_match regex s \<longleftrightarrow> (\<exists>rest. s = ''GSE'' @ rest \<and> CHR 0x0A \<notin> set (butlast rest))"
  by (auto simp: re_match_def regex_def lit_cons dotstar_eol)

lemma re_match_spec_pattern: "re_match spec_pattern s \<longleftrightarrow> prefix ''GSE'' s"
  by (auto simp: re_match_def spec_pattern_def lit_cons prefix_def)

lemma regex_implies_spec_pattern: "re_match regex s \<Longrightarrow> re_match spec_pattern s"
  by (auto simp: re_match_regex re_match_spec_pattern prefix_def)

subsection \<open>The lookup\<close>

lemma summary_loop_Cons:
  "summary_loop requests_get r_json (summary_id # rest)
     = (map_sum id Some (summary_body requests_get r_json summary_id),
        [HttpGet (esummary_request summary_id)])"
  by (simp split: sum.splits)

lemma try_block_first_event:
  "\<exists>log. snd (try_block requests_get r_json geo) = HttpGet (esearch_request geo) # log"
  by (auto simp: try_block_def split: sum.splits prod.splits)

text \<open>
  The search part of the \<open>try\<close> block, when the provider answers the search with a
  status that \<open>raise_for_status\<close> lets through and a body whose
  \<open>['esearchresult']['idlist']\<close> is a list.
\<close>

lemma try_block_idlist:
  assumes "requests_get (esearch_request geo) = Inr r"
    and "status_code r < 400 \<or> 600 \<le> status_code r"
    and "r_json r = Inr j"
    and "subscript j ''esearchresult'' = Inr esearchresult"
    and "subscript esearchresult ''idlist'' = Inr (JArr ids)"
  shows "try_block requests_get r_json geo
           = (fst (summary_loop requests_get r_json ids),
              HttpGet (esearch_request geo) # snd (summary_loop requests_get r_json ids))"
proof -
  from assms have
    "and_then (requests_get (esearch_request geo)) (\<lambda>r.
       and_then (raise_for_status r) (\<lambda>_.
       and_then (r_json r) (\<lambda>j.
       and_then (subscript j ''esearchresult'') (\<lambda>esearchresult.
       and_then (subscript esearchresult ''idlist'') py_iter))))
     = Inr ids"
    by (auto simp: and_then_def raise_for_status_def)
  then show ?thesis
    unfolding try_block_def by (simp add: case_prod_unfold del: summary_loop.simps)
qed

text \<open>
  On the payload of typed records, lines 48-50 compute what the specification's words
  say: the targets that contain \<open>SRP\<close>, in the order of the payload.
\<close>

lemma targetobjects_encode:
  "targetobjects (map encode_relation ts) = Inr (map JStr (filter (sublist ''SRP'') ts))"
  by (induction ts) (simp_all add: encode_relation_def)

lemma flatten_arrays: "flatten (map JArr xss) = Inr (concat xss)"
  by (induction xss) simp_all

lemma srp_targets_encode_summary:
  "srp_targets (encode_summary recs) = Inr (map JStr (collect_srp_spec (map snd recs)))"
proof -
  have 1: "filter is_dict (map snd (map encode_record recs)) = map snd (map encode_record recs)"
    by (induction recs) (simp_all add: encode_record_def)
  have 2: "map (\<lambda>x. the_get x ''extrelations'') (map snd (map encode_record recs))
            = map JArr (map (\<lambda>rec. map encode_relation (snd rec)) recs)"
    by (simp add: the_get_def encode_record_def)
  have 3: "concat (map (\<lambda>rec. map encode_relation (snd rec)) recs)
            = map encode_relation (concat (map snd recs))"
    by (induction recs) simp_all
  have "srp_targets (encode_summary recs)
          = and_then (flatten (map (\<lambda>x. the_get x ''extrelations'')
                                 (filter is_dict (map snd (map encode_record recs)))))
              targetobjects"
    by (simp add: srp_targets_def encode_summary_def and_then_def del: map_map)
  also have "\<dots> = targetobjects (map encode_relation (concat (map snd recs)))"
    unfolding 1 2 flatten_arrays 3 by (simp add: and_then_def)
  finally show ?thesis
    by (simp add: targetobjects_encode collect_srp_spec_def)
qed

subsection \<open>The shape of the efetch requests\<close>

text \<open>
  Each efetch function issues one GET, to a URL \<open>u\<close> built from its arguments, and its
  outcome depends on the answer to that request only.
\<close>

lemma request_fastq_from_SRA_shape:
  "\<exists>u. request_fastq_from_SRA rq_get fromstring accessions
         = (case rq_get (Request u []) of
              Inl e \<Rightarrow> Inl e
            | Inr r \<Rightarrow>
                if status_code r = 400 then Inl (NotFoundSRA r (PyList accessions))
                else Inr (case fromstring (content r) of Inl e \<Rightarrow> None | Inr x \<Rightarrow> Some x),
            [Sleep 500, HttpGet (Request u [])])"
proof -
  define u where
    "u = ''https://eutils.ncbi.nlm.nih.gov/entrez/eutils/efetch/fcgi?db=sra&id=''
         @ join '','' accessions"
  have "request_fastq_from_SRA rq_get fromstring accessions
         = (case rq_get (Request u []) of
              Inl e \<Rightarrow> Inl e
            | Inr r \<Rightarrow>
                if status_code r = 400 then Inl (NotFoundSRA r (PyList accessions))
                else Inr (case fromstring (content r) of Inl e \<Rightarrow> None | Inr x \<Rightarrow> Some x),
            [Sleep 500, HttpGet (Request u [])])"
    unfolding request_fastq_from_SRA_def Let_def STATUS_ERROR_CODE_def u_def [symmetric]
    by (simp split: sum.split)
  then show ?thesis ..
qed

lemma request_accession_info_shape:
  "(accession_type \<noteq> ''biosample'' \<and> accession_type \<noteq> ''experiment'' \<and>
    request_accession_info rq_get fromstring accessions accession_type
      = (Inl (UnboundLocalError ''url''), []))
   \<or> ((accession_type = ''biosample'' \<or> accession_type = ''experiment'') \<and>
       (\<exists>u. request_accession_info rq_get fromstring accessions accession_type
         = (case rq_get (Request u []) of
              Inl e \<Rightarrow> Inl e
            | Inr r \<Rightarrow>
                if status_code r = 400 then Inl (NotFoundSRA r (PyList accessions))
                else fromstring (content r),
            [HttpGet (Request u [])])))"
proof -
  define b where
    "b = ''https://eutils.ncbi.nlm.nih.gov/entrez/eutils/efetch/fcgi?db=biosample&id=''
         @ join '','' accessions"
  define x where
    "x = ''https://eutils.ncbi.nlm.nih.gov/entrez/eutils/efetch/fcgi?db=sra&id=''
         @ join '','' accessions"
  have eq: "request_accession_info rq_get fromstring accessions accession_type
    = (case (if accession_type = ''experiment'' then Some x
             else if accession_type = ''biosample'' then Some b else None) of
         None \<Rightarrow> (Inl (UnboundLocalError ''url''), [])
       | Some url \<Rightarrow>
           (case rq_get (Request url []) of
              Inl e \<Rightarrow> (Inl e, [HttpGet (Request url [])])
            | Inr sra_url \<Rightarrow>
                if status_code sra_url = 400
                then (Inl (NotFoundSRA sra_url (PyList accessions)), [HttpGet (Request url [])])
                else (fromstring (content sra_url), [HttpGet (Request url [])])))"
    unfolding request_accession_info_def Let_def STATUS_ERROR_CODE_def
      b_def [symmetric] x_def [symmetric] ..
  consider "accession_type = ''experiment''"
    | "accession_type \<noteq> ''experiment''" "accession_type = ''biosample''"
    | "accession_type \<noteq> ''experiment''" "accession_type \<noteq> ''biosample''"
    by blast
  then show ?thesis
  proof cases
    case 1
    then have "request_accession_info rq_get fromstring accessions accession_type
         = (case rq_get (Request x []) of
              Inl e \<Rightarrow> Inl e
            | Inr r \<Rightarrow>
                if status_code r = 400 then Inl (NotFoundSRA r (PyList accessions))
                else fromstring (content r),
            [HttpGet (Request x [])])"
      unfolding eq by (simp split: sum.split)
    with 1 show ?thesis by blast
  next
    case 2
    then have "request_accession_info rq_get fromstring accessions accession_type
         = (case rq_get (Request b []) of
              Inl e \<Rightarrow> Inl e
            | Inr r \<Rightarrow>
                if status_code r = 400 then Inl (NotFoundSRA r (PyList accessions))
                else fromstring (content r),
            [HttpGet (Request b [])])"
      unfolding eq by (simp split: sum.split)
    with 2 show ?thesis by blast
  next
    case 3
    then show ?thesis unfolding eq by simp
  qed
qed

lemma request_bioproject_metadata_shape:
  "\<exists>u. request_bioproject_metadata rq_get fromstring accession
         = (case rq_get (Request u []) of
              Inl e \<Rightarrow> Inl e
            | Inr r \<Rightarrow>
                if status_code r = 400 then Inl (NotFoundSRA r (PyStr accession))
                else fromstring (content r),
            [Sleep 500, HttpGet (Request u [])])"
proof -
  define u where
    "u = ''https://eutils.ncbi.nlm.nih.gov/entrez/eutils/efetch/fcgi?db=bioproject&id=''
         @ accession"
  have "request_bioproject_metadata rq_get fromstring accession
         = (case rq_get (Request u []) of
              Inl e \<Rightarrow> Inl e
            | Inr r \<Rightarrow>
                if status_code r = 400 then Inl (NotFoundSRA r (PyStr accession))
                else fromstring (content r),
            [Sleep 500, HttpGet (Request u [])])"
    unfolding request_bioproject_metadata_def Let_def STATUS_ERROR_CODE_def u_def [symmetric]
    by (simp split: sum.split)
  then show ?thesis ..
qed

lemma request_pubmed_metadata_shape:
  "\<exists>u. request_pubmed_metadata rq_get fromstring accession
         = (case rq_get (Request u []) of
              Inl e \<Rightarrow> Inl e
            | Inr r \<Rightarrow>
                if status_code r = 400 then Inl (NotFoundSRA r (PyStr accession))
                else fromstring (content r),
            [Sleep 500, HttpGet (Request u [])])"
proof -
  define u where
    "u = ''https://eutils.ncbi.nlm.nih.gov/entrez/eutils/efetch/fcgi?db=pubmed&id=''
         @ accession @ ''&rettype=xml''"
  have "request_pubmed_metadata rq_get fromstring accession
         = (case rq_get (Request u []) of
              Inl e \<Rightarrow> Inl e
            | Inr r \<Rightarrow>
                if status_code r = 400 then Inl (NotFoundSRA r (PyStr accession))
                else fromstring (content r),
            [Sleep 500, HttpGet (Request u [])])"
    unfolding request_pubmed_metadata_def Let_def STATUS_ERROR_CODE_def u_def [symmetric]
    by (simp split: sum.split)
  then show ?thesis ..
qed

text \<open>The four functions that sleep are paced; \<open>request_accession_info\<close> never sleeps.\<close>

lemma paced_siblings:
  "paced (snd (get_srp_metadata read_csv srp_accession))
   \<and> paced (snd (request_fastq_from_SRA rq_get fromstring srr_accessions))
   \<and> paced (snd (request_bioproject_metadata rq_get fromstring' bioproject_accession))
   \<and> paced (snd (request_pubmed_metadata rq_get fromstring' project_pubmed_id))"
  using request_fastq_from_SRA_shape [of rq_get fromstring srr_accessions]
    request_bioproject_metadata_shape [of rq_get fromstring' bioproject_accession]
    request_pubmed_metadata_shape [of rq_get fromstring' project_pubmed_id]
  by (auto simp: paced_def get_srp_metadata_def Let_def)

lemma request_accession_info_never_sleeps:
  "Sleep d \<notin> set (snd (request_accession_info rq_get fromstring accessions accession_type))"
  using request_accession_info_shape [of accession_type rq_get fromstring accessions]
  by auto

subsection \<open>Experiment packages\<close>

lemma select_tag_filter: "select_tag s t es = filter (\<lambda>e. tag (s e) = t) es"
  by (induction es) auto

lemma yield_each_id: "yield_each xs = xs"
  by (induction xs) auto

lemma select_tag_subseq: "subseq (select_tag s t es) es"
  by (simp add: select_tag_filter)

section \<open>The claims\<close>

text \<open>
  C1. For every GEO accession whose search returns a non-empty id list,
  \<open>get_srp_accession_from_geo\<close> returns right after the summary of the first id: its
  outcome is that of the loop body on the first id alone (the targets collected from
  that summary when the body returns, the wrapped exception when it raises), the only
  requests are the search and the first id's summary, and the remaining ids \<open>rest\<close>
  appear nowhere in the outcome: they are dropped silently. What is collected is what
  the specification says: whenever the first summary is the payload of typed records
  \<open>recs\<close>, the function returns exactly the targets of their relations that contain
  \<open>SRP\<close>, in the order of the payload, and nothing else.
\<close>

theorem first_summary_only:
  assumes "re_match regex geo"
    and "requests_get (esearch_request geo) = Inr r"
    and "status_code r < 400 \<or> 600 \<le> status_code r"
    and "r_json r = Inr j"
    and "subscript j ''esearchresult'' = Inr esearchresult"
    and "subscript esearchresult ''idlist'' = Inr (JArr (summary_id # rest))"
  shows "get_srp_accession_from_geo requests_get r_json geo
           = (case summary_body requests_get r_json summary_id of
                Inl e \<Rightarrow> Inl (FailedToGetSRP geo e)
              | Inr targets \<Rightarrow> Inr (Some targets),
              [HttpGet (esearch_request geo), HttpGet (esummary_request summary_id)])
       \<and> (\<forall>r' j' targets.
             requests_get (esummary_request summary_id) = Inr r' \<and>
             (status_code r' < 400 \<or> 600 \<le> status_code r') \<and>
             r_json r' = Inr j' \<and> srp_targets j' = Inr targets \<longrightarrow>
             fst (get_srp_accession_from_geo requests_get r_json geo) = Inr (Some targets))
       \<and> (\<forall>r' recs.
             requests_get (esummary_request summary_id) = Inr r' \<and>
             (status_code r' < 400 \<or> 600 \<le> status_code r') \<and>
             r_json r' = Inr (encode_summary recs) \<longrightarrow>
             get_srp_accession_from_geo requests_get r_json geo
               = (Inr (Some (map JStr (collect_srp_spec (map snd recs)))),
                  [HttpGet (esearch_request geo), HttpGet (esummary_request summary_id)]))"
proof -
  have tb: "try_block requests_get r_json geo
          = (map_sum id Some (summary_body requests_get r_json summary_id),
             [HttpGet (esearch_request geo), HttpGet (esummary_request summary_id)])"
    using try_block_idlist [where requests_get = requests_get and r_json = r_json, OF assms(2-6)]
    by (simp add: summary_loop_Cons del: summary_loop.simps)
  have main: "get_srp_accession_from_geo requests_get r_json geo
           = (case summary_body requests_get r_json summary_id of
                Inl e \<Rightarrow> Inl (FailedToGetSRP geo e)
              | Inr targets \<Rightarrow> Inr (Some targets),
              [HttpGet (esearch_request geo), HttpGet (esummary_request summary_id)])"
    using assms(1) by (cases "summary_body requests_get r_json summary_id")
      (simp_all add: get_srp_accession_from_geo_def tb)
  have body: "summary_body requests_get r_json summary_id = srp_targets j'"
    if "requests_get (esummary_request summary_id) = Inr r'"
      and "status_code r' < 400 \<or> 600 \<le> status_code r'"
      and "r_json r' = Inr j'" for r' j'
    using that by (auto simp: summary_body_def and_then_def raise_for_status_def)
  have second: "fst (get_srp_accession_from_geo requests_get r_json geo) = Inr (Some targets)"
    if "requests_get (esummary_request summary_id) = Inr r'"
      and "status_code r' < 400 \<or> 600 \<le> status_code r'"
      and "r_json r' = Inr j'" and "srp_targets j' = Inr targets" for r' j' targets
    using body [OF that(1-3)] that(4) by (simp add: main)
  have third: "get_srp_accession_from_geo requests_get r_json geo
               = (Inr (Some (map JStr (collect_srp_spec (map snd recs)))),
                  [HttpGet (esearch_request geo), HttpGet (esummary_request summary_id)])"
    if "requests_get (esummary_request summary_id) = Inr r'"
      and "status_code r' < 400 \<or> 600 \<le> status_code r'"
      and "r_json r' = Inr (encode_summary recs)" for r' recs
    using body [OF that] by (simp add: main srp_targets_encode_summary)
  from main second third show ?thesis by blast
qed

text \<open>
  The search finds the ids 200012345 and 200067890; the lookup returns the one study of
  the first and never asks for the summary of the second. When the first summary has
  two records, with the targets \<open>SRP000001\<close>, \<open>PRJNA000001\<close> and \<open>SRP000002\<close>, the
  lookup returns the two studies in their order; when its only relation is to a
  BioProject, it returns the empty list.
\<close>

theorem first_summary_only_witness:
  "re_match regex ''GSE12345''
   \<and> geo_provider (esearch_request ''GSE12345'') = Inr \<lparr>status_code = 200, content = ''search''\<rparr>
   \<and> decode_geo \<lparr>status_code = 200, content = ''search''\<rparr> = Inr search_payload
   \<and> subscript search_payload ''esearchresult''
       = Inr (JObj [(''count'', JStr ''2''),
                    (''idlist'', JArr [JStr ''200012345'', JStr ''200067890''])])
   \<and> get_srp_accession_from_geo geo_provider decode_geo ''GSE12345''
       = (Inr (Some [JStr ''SRP000001'']),
          [HttpGet (esearch_request ''GSE12345''),
           HttpGet (esummary_request (JStr ''200012345''))])
   \<and> get_srp_accession_from_geo geo_provider
        (decode_geo_records [(''200012345'', [''SRP000001'', ''PRJNA000001'']),
                             (''200012346'', [''SRP000002''])]) ''GSE12345''
       = (Inr (Some [JStr ''SRP000001'', JStr ''SRP000002'']),
          [HttpGet (esearch_request ''GSE12345''),
           HttpGet (esummary_request (JStr ''200012345''))])
   \<and> get_srp_accession_from_geo geo_provider
        (decode_geo_records [(''200012345'', [''PRJNA000001''])]) ''GSE12345''
       = (Inr (Some []),
          [HttpGet (esearch_request ''GSE12345''),
           HttpGet (esummary_request (JStr ''200012345''))])"
proof -
  let ?r = "\<lparr>status_code = 200, content = ''search''\<rparr>"
  let ?r' = "\<lparr>status_code = 200, content = ''summary''\<rparr>"
  let ?er = "JObj [(''count'', JStr ''2''),
                   (''idlist'', JArr [JStr ''200012345'', JStr ''200067890''])]"
  let ?two = "[(''200012345'', [''SRP000001'', ''PRJNA000001'']), (''200012346'', [''SRP000002''])]"
  let ?bio = "[(''200012345'', [''PRJNA000001''])]"
  have h1: "re_match regex ''GSE12345''"
    by (simp add: re_match_def regex_def)
  have h2: "geo_provider (esearch_request ''GSE12345'') = Inr ?r"
    by (simp add: geo_provider_def esearch_request_def)
  have h3: "status_code ?r < 400 \<or> 600 \<le> status_code ?r"
    by simp
  have h4: "decode_geo ?r = Inr search_payload"
    by (simp add: decode_geo_def)
  have h4': "decode_geo_records recs ?r = Inr search_payload" for recs
    by (simp add: decode_geo_records_def)
  have h5: "subscript search_payload ''esearchresult'' = Inr ?er"
    by (simp add: search_payload_def)
  have h6: "subscript ?er ''idlist'' = Inr (JArr (JStr ''200012345'' # [JStr ''200067890'']))"
    by simp
  have s1: "geo_provider (esummary_request (JStr ''200012345'')) = Inr ?r'"
    by (simp add: geo_provider_def esummary_request_def)
  have s2: "status_code ?r' < 400 \<or> 600 \<le> status_code ?r'"
    by simp
  have s3: "decode_geo_records recs ?r' = Inr (encode_summary recs)" for recs
    by (simp add: decode_geo_records_def)
  have body: "summary_body geo_provider decode_geo (JStr ''200012345'') = Inr [JStr ''SRP000001'']"
    by (simp add: summary_body_def and_then_def geo_provider_def esummary_request_def
          default_params_def raise_for_status_def decode_geo_def srp_targets_def
          summary_payload_def the_get_def sublist_code)
  have spec_two: "collect_srp_spec (map snd ?two) = [''SRP000001'', ''SRP000002'']"
    by (simp add: collect_srp_spec_def sublist_code)
  have spec_bio: "collect_srp_spec (map snd ?bio) = []"
    by (simp add: collect_srp_spec_def sublist_code)
  from first_summary_only [where requests_get = geo_provider and r_json = decode_geo,
         OF h1 h2 h3 h4 h5 h6]
  have c1: "get_srp_accession_from_geo geo_provider decode_geo ''GSE12345''
          = (case summary_body geo_provider decode_geo (JStr ''200012345'') of
               Inl e \<Rightarrow> Inl (FailedToGetSRP ''GSE12345'' e)
             | Inr targets \<Rightarrow> Inr (Some targets),
             [HttpGet (esearch_request ''GSE12345''),
              HttpGet (esummary_request (JStr ''200012345''))])"
    by (rule conjunct1)
  from first_summary_only [where requests_get = geo_provider
         and r_json = "decode_geo_records ?two", OF h1 h2 h3 h4' h5 h6] s1 s2 s3 [of ?two]
  have c2: "get_srp_accession_from_geo geo_provider (decode_geo_records ?two) ''GSE12345''
          = (Inr (Some (map JStr (collect_srp_spec (map snd ?two)))),
             [HttpGet (esearch_request ''GSE12345''),
              HttpGet (esummary_request (JStr ''200012345''))])"
    by blast
  from first_summary_only [where requests_get = geo_provider
         and r_json = "decode_geo_records ?bio", OF h1 h2 h3 h4' h5 h6] s1 s2 s3 [of ?bio]
  have c3: "get_srp_accession_from_geo geo_provider (decode_geo_records ?bio) ''GSE12345''
          = (Inr (Some (map JStr (collect_srp_spec (map snd ?bio)))),
             [HttpGet (esearch_request ''GSE12345''),
              HttpGet (esummary_request (JStr ''200012345''))])"
    by blast
  from c2 have c2': "get_srp_accession_from_geo geo_provider (decode_geo_records ?two) ''GSE12345''
          = (Inr (Some [JStr ''SRP000001'', JStr ''SRP000002'']),
             [HttpGet (esearch_request ''GSE12345''),
              HttpGet (esummary_request (JStr ''200012345''))])"
    unfolding spec_two by simp
  from c3 have c3': "get_srp_accession_from_geo geo_provider (decode_geo_records ?bio) ''GSE12345''
          = (Inr (Some []),
             [HttpGet (esearch_request ''GSE12345''),
              HttpGet (esummary_request (JStr ''200012345''))])"
    unfolding spec_bio by simp
  from c1 have c1': "get_srp_accession_from_geo geo_provider decode_geo ''GSE12345''
          = (Inr (Some [JStr ''SRP000001'']),
             [HttpGet (esearch_request ''GSE12345''),
              HttpGet (esummary_request (JStr ''200012345''))])"
    by (simp add: body)
  from h1 h2 h4 h5 c1' c2' c3' show ?thesis by blast
qed

text \<open>
  C2. For each of the four efetch functions (\<open>request_fastq_from_SRA\<close>,
  \<open>request_accession_info\<close>, \<open>request_bioproject_metadata\<close>,
  \<open>request_pubmed_metadata\<close>): when the provider answers the request that the function
  issued with status 400, the function raises \<open>NotFoundSRA\<close>, carrying that very response
  and the accession argument it was called with (the list, or the one string).
\<close>

theorem efetch_status_400:
  assumes "rq_get req = Inr r" and "status_code r = 400"
  shows "(HttpGet req \<in> set (snd (request_fastq_from_SRA rq_get fromstring accessions)) \<longrightarrow>
            fst (request_fastq_from_SRA rq_get fromstring accessions)
              = Inl (NotFoundSRA r (PyList accessions)))
       \<and> (HttpGet req \<in> set (snd (request_accession_info rq_get fromstring accessions accession_type)) \<longrightarrow>
            fst (request_accession_info rq_get fromstring accessions accession_type)
              = Inl (NotFoundSRA r (PyList accessions)))
       \<and> (HttpGet req \<in> set (snd (request_bioproject_metadata rq_get fromstring accession)) \<longrightarrow>
            fst (request_bioproject_metadata rq_get fromstring accession)
              = Inl (NotFoundSRA r (PyStr accession)))
       \<and> (HttpGet req \<in> set (snd (request_pubmed_metadata rq_get fromstring accession)) \<longrightarrow>
            fst (request_pubmed_metadata rq_get fromstring accession)
              = Inl (NotFoundSRA r (PyStr accession)))"
proof (intro conjI impI)
  assume "HttpGet req \<in> set (snd (request_fastq_from_SRA rq_get fromstring accessions))"
  with request_fastq_from_SRA_shape [of rq_get fromstring accessions] assms
  show "fst (request_fastq_from_SRA rq_get fromstring accessions)
          = Inl (NotFoundSRA r (PyList accessions))"
    by auto
next
  assume "HttpGet req \<in> set (snd (request_accession_info rq_get fromstring accessions accession_type))"
  with request_accession_info_shape [of accession_type rq_get fromstring accessions] assms
  show "fst (request_accession_info rq_get fromstring accessions accession_type)
          = Inl (NotFoundSRA r (PyList accessions))"
    by auto
next
  assume "HttpGet req \<in> set (snd (request_bioproject_metadata rq_get fromstring accession))"
  with request_bioproject_metadata_shape [of rq_get fromstring accession] assms
  show "fst (request_bioproject_metadata rq_get fromstring accession)
          = Inl (NotFoundSRA r (PyStr accession))"
    by auto
next
  assume "HttpGet req \<in> set (snd (request_pubmed_metadata rq_get fromstring accession))"
  with request_pubmed_metadata_shape [of rq_get fromstring accession] assms
  show "fst (request_pubmed_metadata rq_get fromstring accession)
          = Inl (NotFoundSRA r (PyStr accession))"
    by auto
qed

theorem efetch_status_400_witness:
  "HttpGet (Request ''https://eutils.ncbi.nlm.nih.gov/entrez/eutils/efetch/fcgi?db=sra&id=SRR000001'' [])
     \<in> set (snd (request_fastq_from_SRA (respond 400 ''Bad Request'') parse_nonempty [''SRR000001'']))
   \<and> fst (request_fastq_from_SRA (respond 400 ''Bad Request'') parse_nonempty [''SRR000001''])
       = Inl (NotFoundSRA \<lparr>status_code = 400, content = ''Bad Request''\<rparr> (PyList [''SRR000001'']))
   \<and> fst (request_accession_info (respond 400 ''Bad Request'') parse_nonempty
            [''SAMN00000001'', ''SAMN00000002''] ''biosample'')
       = Inl (NotFoundSRA \<lparr>status_code = 400, content = ''Bad Request''\<rparr>
                (PyList [''SAMN00000001'', ''SAMN00000002'']))
   \<and> fst (request_bioproject_metadata (respond 400 ''Bad Request'') parse_nonempty ''PRJNA000001'')
       = Inl (NotFoundSRA \<lparr>status_code = 400, content = ''Bad Request''\<rparr> (PyStr ''PRJNA000001''))
   \<and> fst (request_pubmed_metadata (respond 400 ''Bad Request'') parse_nonempty ''12345678'')
       = Inl (NotFoundSRA \<lparr>status_code = 400, content = ''Bad Request''\<rparr> (PyStr ''12345678''))"
proof -
  let ?r = "\<lparr>status_code = 400, content = ''Bad Request''\<rparr>"
  let ?get = "respond 400 ''Bad Request''"
  have a: "?get req = Inr ?r" for req
    by (simp add: respond_def)
  have b: "status_code ?r = 400"
    by simp
  have m1: "HttpGet (Request ''https://eutils.ncbi.nlm.nih.gov/entrez/eutils/efetch/fcgi?db=sra&id=SRR000001'' [])
              \<in> set (snd (request_fastq_from_SRA ?get parse_nonempty [''SRR000001'']))"
    by (simp add: request_fastq_from_SRA_def respond_def STATUS_ERROR_CODE_def)
  have m2: "HttpGet (Request ''https://eutils.ncbi.nlm.nih.gov/entrez/eutils/efetch/fcgi?db=biosample&id=SAMN00000001,SAMN00000002'' [])
              \<in> set (snd (request_accession_info ?get parse_nonempty
                            [''SAMN00000001'', ''SAMN00000002''] ''biosample''))"
    by (simp add: request_accession_info_def respond_def STATUS_ERROR_CODE_def)
  have m3: "HttpGet (Request ''https://eutils.ncbi.nlm.nih.gov/entrez/eutils/efetch/fcgi?db=bioproject&id=PRJNA000001'' [])
              \<in> set (snd (request_bioproject_metadata ?get parse_nonempty ''PRJNA000001''))"
    by (simp add: request_bioproject_metadata_def respond_def STATUS_ERROR_CODE_def)
  have m4: "HttpGet (Request ''https://eutils.ncbi.nlm.nih.gov/entrez/eutils/efetch/fcgi?db=pubmed&id=12345678&rettype=xml'' [])
              \<in> set (snd (request_pubmed_metadata ?get parse_nonempty ''12345678''))"
    by (simp add: request_pubmed_metadata_def respond_def STATUS_ERROR_CODE_def)
  from efetch_status_400 [where rq_get = ?get and r = ?r and fromstring = parse_nonempty
         and accessions = "[''SRR000001'']", OF a b] m1
  have c1: "fst (request_fastq_from_SRA ?get parse_nonempty [''SRR000001''])
              = Inl (NotFoundSRA ?r (PyList [''SRR000001'']))"
    by blast
  from efetch_status_400 [where rq_get = ?get and r = ?r and fromstring = parse_nonempty
         and accessions = "[''SAMN00000001'', ''SAMN00000002'']"
         and accession_type = "''biosample''", OF a b] m2
  have c2: "fst (request_accession_info ?get parse_nonempty
                   [''SAMN00000001'', ''SAMN00000002''] ''biosample'')
              = Inl (NotFoundSRA ?r (PyList [''SAMN00000001'', ''SAMN00000002'']))"
    by blast
  from efetch_status_400 [where rq_get = ?get and r = ?r and fromstring = parse_nonempty
         and accession = "''PRJNA000001''", OF a b] m3
  have c3: "fst (request_bioproject_metadata ?get parse_nonempty ''PRJNA000001'')
              = Inl (NotFoundSRA ?r (PyStr ''PRJNA000001''))"
    by blast
  from efetch_status_400 [where rq_get = ?get and r = ?r and fromstring = parse_nonempty
         and accession = "''12345678''", OF a b] m4
  have c4: "fst (request_pubmed_metadata ?get parse_nonempty ''12345678'')
              = Inl (NotFoundSRA ?r (PyStr ''12345678''))"
    by blast
  from m1 c1 c2 c3 c4 show ?thesis by blast
qed

text \<open>
  C3. When the provider answers the request with a status other than 400 and
  \<open>xm.fromstring\<close> fails on the body, \<open>request_fastq_from_SRA\<close> returns \<open>None\<close> and
  raises nothing, whereas \<open>request_accession_info\<close> raises the parser's exception as it
  is.
\<close>

theorem efetch_parse_failure:
  assumes "rq_get req = Inr r" and "status_code r \<noteq> 400" and "fromstring (content r) = Inl e"
  shows "(HttpGet req \<in> set (snd (request_fastq_from_SRA rq_get fromstring accessions)) \<longrightarrow>
            fst (request_fastq_from_SRA rq_get fromstring accessions) = Inr None)
       \<and> (HttpGet req \<in> set (snd (request_accession_info rq_get fromstring accessions accession_type)) \<longrightarrow>
            fst (request_accession_info rq_get fromstring accessions accession_type) = Inl e)"
proof (intro conjI impI)
  assume "HttpGet req \<in> set (snd (request_fastq_from_SRA rq_get fromstring accessions))"
  with request_fastq_from_SRA_shape [of rq_get fromstring accessions] assms
  show "fst (request_fastq_from_SRA rq_get fromstring accessions) = Inr None"
    by auto
next
  assume "HttpGet req \<in> set (snd (request_accession_info rq_get fromstring accessions accession_type))"
  with request_accession_info_shape [of accession_type rq_get fromstring accessions] assms
  show "fst (request_accession_info rq_get fromstring accessions accession_type) = Inl e"
    by auto
qed

text \<open>Status 200 with an empty body, on which the parser fails.\<close>

theorem efetch_parse_failure_witness:
  "status_code \<lparr>status_code = 200, content = []\<rparr> \<noteq> 400
   \<and> parse_nonempty (content \<lparr>status_code = 200, content = []\<rparr>) = Inl ParseError
   \<and> fst (request_fastq_from_SRA (respond 200 []) parse_nonempty [''SRR000001'']) = Inr None
   \<and> fst (request_accession_info (respond 200 []) parse_nonempty [''SRX000001''] ''experiment'')
       = Inl ParseError"
proof -
  let ?r = "\<lparr>status_code = 200, content = []\<rparr>"
  have a: "respond 200 [] req = Inr ?r" for req
    by (simp add: respond_def)
  have b: "status_code ?r \<noteq> 400"
    by simp
  have c: "parse_nonempty (content ?r) = Inl ParseError"
    by (simp add: parse_nonempty_def)
  have m1: "HttpGet (Request ''https://eutils.ncbi.nlm.nih.gov/entrez/eutils/efetch/fcgi?db=sra&id=SRR000001'' [])
              \<in> set (snd (request_fastq_from_SRA (respond 200 []) parse_nonempty [''SRR000001'']))"
    by (simp add: request_fastq_from_SRA_def respond_def STATUS_ERROR_CODE_def
          parse_nonempty_def)
  have m2: "HttpGet (Request ''https://eutils.ncbi.nlm.nih.gov/entrez/eutils/efetch/fcgi?db=sra&id=SRX000001'' [])
              \<in> set (snd (request_accession_info (respond 200 []) parse_nonempty
                            [''SRX000001''] ''experiment''))"
    by (simp add: request_accession_info_def respond_def STATUS_ERROR_CODE_def)
  from efetch_parse_failure [where rq_get = "respond 200 []" and r = ?r
         and fromstring = parse_nonempty and accessions = "[''SRR000001'']", OF a b c] m1
  have c1: "fst (request_fastq_from_SRA (respond 200 []) parse_nonempty [''SRR000001''])
              = Inr None"
    by blast
  from efetch_parse_failure [where rq_get = "respond 200 []" and r = ?r
         and fromstring = parse_nonempty and accessions = "[''SRX000001'']"
         and accession_type = "''experiment''", OF a b c] m2
  have c2: "fst (request_accession_info (respond 200 []) parse_nonempty
                   [''SRX000001''] ''experiment'') = Inl ParseError"
    by blast
  from b c c1 c2 show ?thesis by blast
qed

text \<open>
  C4, as the code has it. The efetch functions never call \<open>raise_for_status\<close>; they
  compare the status with 400 and nothing else. So for every efetch function and every
  status other than 400, the non-2xx ones such as 500 included, no failure is raised
  for the status: the body goes to \<open>xm.fromstring\<close> and the outcome is the parser's
  (\<open>None\<close> in place of its exception for \<open>request_fastq_from_SRA\<close>).
\<close>

theorem efetch_other_status_parsed:
  assumes "rq_get req = Inr r" and "status_code r \<noteq> 400"
  shows "(HttpGet req \<in> set (snd (request_fastq_from_SRA rq_get fromstring accessions)) \<longrightarrow>
            fst (request_fastq_from_SRA rq_get fromstring accessions)
              = Inr (case fromstring (content r) of Inl e \<Rightarrow> None | Inr x \<Rightarrow> Some x))
       \<and> (HttpGet req \<in> set (snd (request_accession_info rq_get fromstring accessions accession_type)) \<longrightarrow>
            fst (request_accession_info rq_get fromstring accessions accession_type)
              = fromstring (content r))
       \<and> (HttpGet req \<in> set (snd (request_bioproject_metadata rq_get fromstring accession)) \<longrightarrow>
            fst (request_bioproject_metadata rq_get fromstring accession)
              = fromstring (content r))
       \<and> (HttpGet req \<in> set (snd (request_pubmed_metadata rq_get fromstring accession)) \<longrightarrow>
            fst (request_pubmed_metadata rq_get fromstring accession)
              = fromstring (content r))"
proof (intro conjI impI)
  assume "HttpGet req \<in> set (snd (request_fastq_from_SRA rq_get fromstring accessions))"
  with request_fastq_from_SRA_shape [of rq_get fromstring accessions] assms
  show "fst (request_fastq_from_SRA rq_get fromstring accessions)
          = Inr (case fromstring (content r) of Inl e \<Rightarrow> None | Inr x \<Rightarrow> Some x)"
    by auto
next
  assume "HttpGet req \<in> set (snd (request_accession_info rq_get fromstring accessions accession_type))"
  with request_accession_info_shape [of accession_type rq_get fromstring accessions] assms
  show "fst (request_accession_info rq_get fromstring accessions accession_type)
          = fromstring (content r)"
    by auto
next
  assume "HttpGet req \<in> set (snd (request_bioproject_metadata rq_get fromstring accession))"
  with request_bioproject_metadata_shape [of rq_get fromstring accession] assms
  show "fst (request_bioproject_metadata rq_get fromstring accession) = fromstring (content r)"
    by auto
next
  assume "HttpGet req \<in> set (snd (request_pubmed_metadata rq_get fromstring accession))"
  with request_pubmed_metadata_shape [of rq_get fromstring accession] assms
  show "fst (request_pubmed_metadata rq_get fromstring accession) = fromstring (content r)"
    by auto
qed

theorem efetch_other_status_parsed_witness:
  "status_code \<lparr>status_code = 500, content = ''<e/>''\<rparr> \<noteq> 400
   \<and> fst (request_bioproject_metadata (respond 500 ''<e/>'') parse_nonempty ''PRJNA000001'')
       = Inr ''<e/>''
   \<and> fst (request_pubmed_metadata (respond 500 ''<e/>'') parse_nonempty ''12345678'')
       = Inr ''<e/>''"
proof -
  let ?r = "\<lparr>status_code = 500, content = ''<e/>''\<rparr>"
  have a: "respond 500 ''<e/>'' req = Inr ?r" for req
    by (simp add: respond_def)
  have b: "status_code ?r \<noteq> 400"
    by simp
  have m3: "HttpGet (Request ''https://eutils.ncbi.nlm.nih.gov/entrez/eutils/efetch/fcgi?db=bioproject&id=PRJNA000001'' [])
              \<in> set (snd (request_bioproject_metadata (respond 500 ''<e/>'') parse_nonempty
                            ''PRJNA000001''))"
    by (simp add: request_bioproject_metadata_def respond_def STATUS_ERROR_CODE_def)
  have m4: "HttpGet (Request ''https://eutils.ncbi.nlm.nih.gov/entrez/eutils/efetch/fcgi?db=pubmed&id=12345678&rettype=xml'' [])
              \<in> set (snd (request_pubmed_metadata (respond 500 ''<e/>'') parse_nonempty
                            ''12345678''))"
    by (simp add: request_pubmed_metadata_def respond_def STATUS_ERROR_CODE_def)
  from efetch_other_status_parsed [where rq_get = "respond 500 ''<e/>''" and r = ?r
         and fromstring = parse_nonempty and accession = "''PRJNA000001''", OF a b] m3
  have c3: "fst (request_bioproject_metadata (respond 500 ''<e/>'') parse_nonempty ''PRJNA000001'')
              = parse_nonempty (content ?r)"
    by blast
  from efetch_other_status_parsed [where rq_get = "respond 500 ''<e/>''" and r = ?r
         and fromstring = parse_nonempty and accession = "''12345678''", OF a b] m4
  have c4: "fst (request_pubmed_metadata (respond 500 ''<e/>'') parse_nonempty ''12345678'')
              = parse_nonempty (content ?r)"
    by blast
  from b c3 c4 show ?thesis by (simp add: parse_nonempty_def)
qed

text \<open>
  C4 as it is stated fails: answered with status 500 and a body that parses,
  \<open>request_fastq_from_SRA\<close> and \<open>request_accession_info\<close> raise nothing and return the
  parsed body.
\<close>

theorem efetch_status_500_counterexample:
  "request_fastq_from_SRA (respond 500 ''<e/>'') parse_nonempty [''SRR000001'']
     = (Inr (Some ''<e/>''),
        [Sleep 500,
         HttpGet (Request ''https://eutils.ncbi.nlm.nih.gov/entrez/eutils/efetch/fcgi?db=sra&id=SRR000001'' [])])
   \<and> fst (request_accession_info (respond 500 ''<e/>'') parse_nonempty [''SRX000001''] ''experiment'')
       = Inr ''<e/>''"
  by (simp add: request_fastq_from_SRA_def request_accession_info_def respond_def
        parse_nonempty_def STATUS_ERROR_CODE_def)

text \<open>
  C5, as the code has it. The check is \<open>re.compile('^GSE.*$').match\<close>, not \<open>^GSE\<close>:
  it accepts \<open>GSE\<close> followed by a rest that has no newline but, possibly, its last
  character. Every string that \<open>^GSE\<close> rejects is rejected by it. Every string it rejects
  makes \<open>get_srp_accession_from_geo\<close> raise \<open>AssertionError\<close> with no effect performed,
  so before any request. Every string it accepts passes the check: the function goes on
  to the \<open>try\<close> block, whose first effect is the search request, and its outcome is the
  block's, an exception of the block wrapped in \<open>FailedToGetSRP\<close>.
\<close>

theorem geo_validation:
  "(\<not> re_match spec_pattern geo \<longrightarrow> \<not> re_match regex geo)
   \<and> (\<not> re_match regex geo \<longrightarrow>
        get_srp_accession_from_geo requests_get r_json geo
          = (Inl (AssertionError (geo @ '' is not a valid GEO accession'')), []))
   \<and> (re_match regex geo \<longrightarrow>
        fst (get_srp_accession_from_geo requests_get r_json geo)
          = (case fst (try_block requests_get r_json geo) of
               Inl e \<Rightarrow> Inl (FailedToGetSRP geo e) | Inr v \<Rightarrow> Inr v)
        \<and> snd (get_srp_accession_from_geo requests_get r_json geo)
          = snd (try_block requests_get r_json geo)
        \<and> snd (get_srp_accession_from_geo requests_get r_json geo) \<noteq> []
        \<and> hd (snd (get_srp_accession_from_geo requests_get r_json geo))
          = HttpGet (esearch_request geo))
   \<and> (re_match regex geo \<longleftrightarrow>
        (\<exists>rest. geo = ''GSE'' @ rest \<and> CHR 0x0A \<notin> set (butlast rest)))"
proof (intro conjI impI)
  show "re_match regex geo \<longleftrightarrow>
        (\<exists>rest. geo = ''GSE'' @ rest \<and> CHR 0x0A \<notin> set (butlast rest))"
    by (rule re_match_regex)
next
  assume "\<not> re_match spec_pattern geo"
  then show "\<not> re_match regex geo" using regex_implies_spec_pattern by blast
next
  assume "\<not> re_match regex geo"
  then show "get_srp_accession_from_geo requests_get r_json geo
          = (Inl (AssertionError (geo @ '' is not a valid GEO accession'')), [])"
    by (simp add: get_srp_accession_from_geo_def)
next
  assume m: "re_match regex geo"
  obtain outcome log where t: "try_block requests_get r_json geo = (outcome, log)"
    by (cases "try_block requests_get r_json geo")
  from m t show "fst (get_srp_accession_from_geo requests_get r_json geo)
          = (case fst (try_block requests_get r_json geo) of
               Inl e \<Rightarrow> Inl (FailedToGetSRP geo e) | Inr v \<Rightarrow> Inr v)"
    by (cases outcome) (simp_all add: get_srp_accession_from_geo_def)
  from m t show s: "snd (get_srp_accession_from_geo requests_get r_json geo)
          = snd (try_block requests_get r_json geo)"
    by (cases outcome) (simp_all add: get_srp_accession_from_geo_def)
  from try_block_first_event [of requests_get r_json geo] s
  show "snd (get_srp_accession_from_geo requests_get r_json geo) \<noteq> []"
    and "hd (snd (get_srp_accession_from_geo requests_get r_json geo))
          = HttpGet (esearch_request geo)"
    by auto
qed

text \<open>\<open>GSE12345\<close> passes the check and the search is requested; \<open>SRP000001\<close> does not.\<close>

theorem geo_validation_witness:
  "re_match regex ''GSE12345''
   \<and> hd (snd (get_srp_accession_from_geo geo_provider decode_geo ''GSE12345''))
       = HttpGet (esearch_request ''GSE12345'')
   \<and> \<not> re_match spec_pattern ''SRP000001''
   \<and> \<not> re_match regex ''SRP000001''
   \<and> get_srp_accession_from_geo geo_provider decode_geo ''SRP000001''
       = (Inl (AssertionError ''SRP000001 is not a valid GEO accession''), [])"
proof -
  have p: "re_match regex ''GSE12345''"
    by (simp add: re_match_def regex_def)
  have n: "\<not> re_match spec_pattern ''SRP000001''"
    by (simp add: re_match_def spec_pattern_def)
  from geo_validation [of "''GSE12345''" geo_provider decode_geo] p
  have c1: "hd (snd (get_srp_accession_from_geo geo_provider decode_geo ''GSE12345''))
              = HttpGet (esearch_request ''GSE12345'')"
    by blast
  from geo_validation [of "''SRP000001''" geo_provider decode_geo] n
  have n': "\<not> re_match regex ''SRP000001''"
    by blast
  with geo_validation [of "''SRP000001''" geo_provider decode_geo]
  have c2: "get_srp_accession_from_geo geo_provider decode_geo ''SRP000001''
              = (Inl (AssertionError (''SRP000001'' @ '' is not a valid GEO accession'')), [])"
    by blast
  from p c1 n n' c2 show ?thesis by simp
qed

text \<open>
  C5 as it is stated fails: the string \<open>GSE1\<close>, newline, \<open>X\<close> matches \<open>^GSE\<close>, and the
  function rejects it with \<open>AssertionError\<close>, since \<open>.\<close> does not match the newline
  and \<open>$\<close> does not match before a newline that is not the last character.
\<close>

theorem geo_validation_counterexample:
  "re_match spec_pattern (''GSE1'' @ [CHR 0x0A] @ ''X'')
   \<and> get_srp_accession_from_geo geo_provider decode_geo (''GSE1'' @ [CHR 0x0A] @ ''X'')
       = (Inl (AssertionError (''GSE1'' @ [CHR 0x0A] @ ''X is not a valid GEO accession'')), [])"
  by (simp add: re_match_def spec_pattern_def regex_def get_srp_accession_from_geo_def)

text \<open>
  C6 fails on \<open>request_accession_info\<close>: called for one biosample it performs a
  single effect, the GET, with no \<open>sleep\<close> before it, so its log is not paced. (The
  other four functions are, see \<open>paced_siblings\<close>.)
\<close>

theorem request_accession_info_unpaced:
  "snd (request_accession_info (respond 200 ''<e/>'') parse_nonempty [''SAMN00000001''] ''biosample'')
     = [HttpGet (Request ''https://eutils.ncbi.nlm.nih.gov/entrez/eutils/efetch/fcgi?db=biosample&id=SAMN00000001'' [])]
   \<and> \<not> paced (snd (request_accession_info (respond 200 ''<e/>'') parse_nonempty
                      [''SAMN00000001''] ''biosample''))"
  by (simp add: request_accession_info_def respond_def parse_nonempty_def
        STATUS_ERROR_CODE_def paced_def)

text \<open>
  C7, as the code has it. \<open>get_srp_metadata\<close> has no \<open>try\<close>: whenever \<open>pd.read_csv\<close>
  raises on the run-info URL, because the transport fails or because the body is not a
  table, \<open>get_srp_metadata\<close> raises that same exception, after the pause and the one
  call; nothing wraps it and nothing adds the accession.
\<close>

theorem get_srp_metadata_raises_unwrapped:
  assumes "read_csv (''http://trace.ncbi.nlm.nih.gov/Traces/sra/sra.cgi?save=efetch&db=sra&rettype=runinfo&term=''
                     @ srp_accession) = Inl e"
  shows "get_srp_metadata read_csv srp_accession
           = (Inl e,
              [Sleep 500,
               ReadCsv (''http://trace.ncbi.nlm.nih.gov/Traces/sra/sra.cgi?save=efetch&db=sra&rettype=runinfo&term=''
                        @ srp_accession)])"
  using assms unfolding get_srp_metadata_def Let_def by simp

theorem get_srp_metadata_raises_unwrapped_witness:
  "read_csv_unparseable (''http://trace.ncbi.nlm.nih.gov/Traces/sra/sra.cgi?save=efetch&db=sra&rettype=runinfo&term=''
                         @ ''SRP000001'') = Inl ParserError
   \<and> get_srp_metadata read_csv_unparseable ''SRP000001''
       = (Inl ParserError,
          [Sleep 500,
           ReadCsv ''http://trace.ncbi.nlm.nih.gov/Traces/sra/sra.cgi?save=efetch&db=sra&rettype=runinfo&term=SRP000001''])"
proof -
  have a: "read_csv_unparseable (''http://trace.ncbi.nlm.nih.gov/Traces/sra/sra.cgi?save=efetch&db=sra&rettype=runinfo&term=''
                                 @ ''SRP000001'') = Inl ParserError"
    by (simp add: read_csv_unparseable_def)
  from get_srp_metadata_raises_unwrapped [where read_csv = read_csv_unparseable, OF a] a
  show ?thesis by simp
qed

text \<open>
  C7 as it is stated fails: when the host cannot be reached the function raises the
  bare \<open>URLError\<close>, and on a body that is not a table the bare \<open>ParserError\<close>; neither
  is the failure that wraps the accession and the cause.
\<close>

theorem get_srp_metadata_counterexample:
  "fst (get_srp_metadata read_csv_unreachable ''SRP000001'') = Inl URLError
   \<and> fst (get_srp_metadata read_csv_unreachable ''SRP000001'')
       \<noteq> Inl (FailedToGetSRP ''SRP000001'' URLError)
   \<and> fst (get_srp_metadata read_csv_unparseable ''SRP000001'') = Inl ParserError
   \<and> fst (get_srp_metadata read_csv_unparseable ''SRP000001'')
       \<noteq> Inl (FailedToGetSRP ''SRP000001'' ParserError)"
  by (simp add: get_srp_metadata_def read_csv_unreachable_def read_csv_unparseable_def)

text \<open>
  C8. For every store and every element of it, \<open>parse_xml_SRA_runs\<close> yields exactly the
  children of the element whose tag is \<open>EXPERIMENT_PACKAGE\<close>, in the order of the
  children (so as many elements as there are such children); it leaves the store as it
  was; and invoked again on the same element, in the store it left, it yields the same
  sequence.
\<close>

theorem parse_xml_SRA_runs_children:
  "parse_xml_SRA_runs s (Some root)
     = (Inr (filter (\<lambda>e. tag (s e) = ''EXPERIMENT_PACKAGE'') (children (s root))), s)
   \<and> length (filter (\<lambda>e. tag (s e) = ''EXPERIMENT_PACKAGE'') (children (s root)))
       = count_list (map (\<lambda>e. tag (s e)) (children (s root))) ''EXPERIMENT_PACKAGE''
   \<and> parse_xml_SRA_runs (snd (parse_xml_SRA_runs s (Some root))) (Some root)
       = parse_xml_SRA_runs s (Some root)"
proof -
  have "length (filter (\<lambda>e. tag (s e) = t) es) = count_list (map (\<lambda>e. tag (s e)) es) t"
    for t es
    by (induction es) auto
  then show ?thesis
    by (simp add: parse_xml_SRA_runs_def findall_def select_tag_filter yield_each_id)
qed

text \<open>
  On the example tree the three packages among the root's children are yielded in
  document order; the child that is not a package and the package one level further
  down are not.
\<close>

theorem parse_xml_SRA_runs_children_witness:
  "parse_xml_SRA_runs example_store (Some 0) = (Inr [1, 2, 4], example_store)
   \<and> parse_xml_SRA_runs (snd (parse_xml_SRA_runs example_store (Some 0))) (Some 0)
       = (Inr [1, 2, 4], example_store)"
proof -
  have "filter (\<lambda>e. tag (example_store e) = ''EXPERIMENT_PACKAGE'') (children (example_store 0))
          = [1, 2, 4]"
    by (simp add: example_store_def)
  with parse_xml_SRA_runs_children [of example_store 0] show ?thesis by simp
qed

text \<open>
  C9. When the search succeeds and its id list is empty, the loop body never runs and
  \<open>get_srp_accession_from_geo\<close> returns \<open>None\<close>: not an empty list, and no exception.
  The search is the only request.
\<close>

theorem empty_idlist_returns_None:
  assumes "re_match regex geo"
    and "requests_get (esearch_request geo) = Inr r"
    and "status_code r < 400 \<or> 600 \<le> status_code r"
    and "r_json r = Inr j"
    and "subscript j ''esearchresult'' = Inr esearchresult"
    and "subscript esearchresult ''idlist'' = Inr (JArr [])"
  shows "get_srp_accession_from_geo requests_get r_json geo
           = (Inr None, [HttpGet (esearch_request geo)])"
proof -
  have "try_block requests_get r_json geo = (Inr None, [HttpGet (esearch_request geo)])"
    using try_block_idlist [where requests_get = requests_get and r_json = r_json, OF assms(2-6)]
    by simp
  with assms(1) show ?thesis by (simp add: get_srp_accession_from_geo_def)
qed

theorem empty_idlist_returns_None_witness:
  "re_match regex ''GSE12345''
   \<and> decode_geo_empty \<lparr>status_code = 200, content = ''search''\<rparr> = Inr empty_search_payload
   \<and> subscript empty_search_payload ''esearchresult''
       = Inr (JObj [(''count'', JStr ''0''), (''idlist'', JArr [])])
   \<and> get_srp_accession_from_geo geo_provider decode_geo_empty ''GSE12345''
       = (Inr None, [HttpGet (esearch_request ''GSE12345'')])
   \<and> fst (get_srp_accession_from_geo geo_provider decode_geo_empty ''GSE12345'') \<noteq> Inr (Some [])"
proof -
  let ?r = "\<lparr>status_code = 200, content = ''search''\<rparr>"
  let ?er = "JObj [(''count'', JStr ''0''), (''idlist'', JArr [])]"
  have h1: "re_match regex ''GSE12345''"
    by (simp add: re_match_def regex_def)
  have h2: "geo_provider (esearch_request ''GSE12345'') = Inr ?r"
    by (simp add: geo_provider_def esearch_request_def)
  have h3: "status_code ?r < 400 \<or> 600 \<le> status_code ?r"
    by simp
  have h4: "decode_geo_empty ?r = Inr empty_search_payload"
    by (simp add: decode_geo_empty_def)
  have h5: "subscript empty_search_payload ''esearchresult'' = Inr ?er"
    by (simp add: empty_search_payload_def)
  have h6: "subscript ?er ''idlist'' = Inr (JArr [])"
    by simp
  from empty_idlist_returns_None [where requests_get = geo_provider and r_json = decode_geo_empty,
         OF h1 h2 h3 h4 h5 h6] h1 h4 h5
  show ?thesis by simp
qed

text \<open>
  C10. \<open>request_accession_info\<close> is not total over \<open>accession_type\<close>: for every list of
  accessions, when the type is neither \<open>'biosample'\<close> nor \<open>'experiment'\<close> the function
  raises the unbound-variable error for \<open>url\<close>, no typed failure, and performs no effect
  at all: no HTTP request is issued, whatever the provider and the parser would answer.
\<close>

theorem request_accession_info_unbound_url:
  assumes "accession_type \<noteq> ''biosample''" and "accession_type \<noteq> ''experiment''"
  shows "request_accession_info rq_get fromstring accessions accession_type
           = (Inl (UnboundLocalError ''url''), [])"
  using assms by (simp add: request_accession_info_def)

theorem request_accession_info_unbound_url_witness:
  "''run'' \<noteq> ''biosample'' \<and> ''run'' \<noteq> ''experiment'' \<and>
   request_accession_info (respond 200 ''<e/>'') parse_nonempty [''SRR000001''] ''run''
     = (Inl (UnboundLocalError ''url''), [])"
  using request_accession_info_unbound_url
          [of "''run''" "respond 200 ''<e/>''" parse_nonempty "[''SRR000001'']"]
  by simp

end
